theory Spec2Isabelle
  imports Main
begin

unbundle bit_operations_syntax

section \<open>Relay coordinator (RelayerService)\<close>

text \<open>
  The TypeScript interfaces \<^verbatim>\<open>CrossChainMessage\<close> and \<^verbatim>\<open>RelayConfirmation\<close> become
  records. JavaScript numbers that hold chain ids, block numbers, timestamps and nonces are
  modelled as integers, and the ethers \<^verbatim>\<open>BigNumber\<close> amount as an unbounded integer.
  The fields of the confirmation carry the prefix \<open>c_\<close>, since record fields are global
  names in HOL.
\<close>

record CrossChainMessage =
  transferId :: string
  sender :: string
  recipient :: string
  amount :: int
  sourceChainId :: int
  destinationChainId :: int
  token :: string
  timestamp :: int
  nonce :: int

record RelayConfirmation =
  c_transferId :: string
  c_transactionHash :: string
  c_blockNumber :: int
  c_timestamp :: int
  c_signatures :: "string list"
  c_signers :: "string list"

text \<open>
  Every exception of the relay code that the model can meet is a TypeError: the call of a
  method that the receiver does not have, or the read of a field of \<^verbatim>\<open>undefined\<close>.
\<close>

datatype relay_error = TypeError

text \<open>
  The service state. \<^verbatim>\<open>confirmations\<close> is a JavaScript \<^verbatim>\<open>Map\<close>, whose iteration order
  is insertion order: an association list with distinct keys. \<open>relayCalls\<close> is the trace
  of the calls of \<^verbatim>\<open>relayMessage\<close>, each with its argument and its outcome; the code has
  no such field, the trace is what the claims about dispatch speak of. The fields
  \<^verbatim>\<open>providers\<close> and \<^verbatim>\<open>wallets\<close> are declared as \<^verbatim>\<open>Map\<close> and initialised with the
  array literal \<^verbatim>\<open>[]\<close>; nothing assigns them again, so each holds an empty array for the
  whole life of the service and needs no field in the state. (\<^verbatim>\<open>initialize\<close> calls
  \<^verbatim>\<open>this.providers.set\<close>, which an array does not have: the constructor returns only for
  a configuration that names no configured chain, and \<open>RelayerService_new\<close> is the service
  it returns then.)
\<close>

record RelayerService =
  isRunning :: bool
  messageQueue :: "CrossChainMessage list"
  confirmations :: "(string \<times> RelayConfirmation list) list"
  requiredSignatures :: nat
  relayCalls :: "(CrossChainMessage \<times> (relay_error + string)) list"

definition RelayerService_new :: RelayerService where
  "RelayerService_new =
     \<lparr>isRunning = False, messageQueue = [], confirmations = [],
      requiredSignatures = 2, relayCalls = []\<rparr>"

subsection \<open>The insertion-ordered Map\<close>

fun map_get :: "('k \<times> 'v) list \<Rightarrow> 'k \<Rightarrow> 'v option" where
  "map_get [] k = None"
| "map_get ((k', v) # m) k = (if k' = k then Some v else map_get m k)"

text \<open>\<^verbatim>\<open>Map.set\<close>: an existing key keeps its position, a new key goes to the end.\<close>

fun map_set :: "('k \<times> 'v) list \<Rightarrow> 'k \<Rightarrow> 'v \<Rightarrow> ('k \<times> 'v) list" where
  "map_set [] k v = [(k, v)]"
| "map_set ((k', v') # m) k v =
     (if k' = k then (k, v) # m else (k', v') # map_set m k v)"

fun map_delete :: "('k \<times> 'v) list \<Rightarrow> 'k \<Rightarrow> ('k \<times> 'v) list" where
  "map_delete [] k = []"
| "map_delete ((k', v') # m) k =
     (if k' = k then m else (k', v') # map_delete m k)"

subsection \<open>relayMessage\<close>

text \<open>
  The first statement of \<^verbatim>\<open>relayMessage\<close> is
  \<^verbatim>\<open>this.wallets.get(message.destinationChainId)\<close>. \<^verbatim>\<open>this.wallets\<close> is an array, an
  array has no method \<^verbatim>\<open>get\<close>, and the call of the undefined value throws a TypeError:
  on every call, for every message, before the bridge address is read or a transaction is
  sent. The rest of the body is never reached.
\<close>

definition relayMessage ::
  "RelayerService \<Rightarrow> CrossChainMessage \<Rightarrow> (relay_error + string) \<times> RelayerService"
where
  "relayMessage s message =
     (let res = Inl TypeError
      in (res, s\<lparr>relayCalls := relayCalls s @ [(message, res)]\<rparr>))"

subsection \<open>The message queue\<close>

definition submitCrossChainMessage :: "RelayerService \<Rightarrow> CrossChainMessage \<Rightarrow> RelayerService" where
  "submitCrossChainMessage s message = s\<lparr>messageQueue := messageQueue s @ [message]\<rparr>"

definition getQueueLength :: "RelayerService \<Rightarrow> nat" where
  "getQueueLength s = length (messageQueue s)"

text \<open>
  One turn of the \<^verbatim>\<open>while\<close> loop of \<^verbatim>\<open>processMessageQueue\<close>: the head is shifted off the
  queue and relayed; when \<^verbatim>\<open>relayMessage\<close> throws, the \<^verbatim>\<open>catch\<close> block pushes the message
  back at the end.
\<close>

definition processMessageQueue_iter :: "RelayerService \<Rightarrow> RelayerService" where
  "processMessageQueue_iter s =
     (case messageQueue s of
        [] \<Rightarrow> s
      | message # rest \<Rightarrow>
          (let r = relayMessage (s\<lparr>messageQueue := rest\<rparr>) message
           in (case fst r of
                 Inr h \<Rightarrow> snd r
               | Inl e \<Rightarrow> (snd r)\<lparr>messageQueue := messageQueue (snd r) @ [message]\<rparr>)))"


subsection \<open>Confirmations\<close>

definition addConfirmation :: "RelayerService \<Rightarrow> RelayConfirmation \<Rightarrow> RelayerService" where
  "addConfirmation s confirmation =
     (let existing = (case map_get (confirmations s) (c_transferId confirmation) of
                        None \<Rightarrow> [] | Some cs \<Rightarrow> cs)
      in s\<lparr>confirmations :=
             map_set (confirmations s) (c_transferId confirmation) (existing @ [confirmation])\<rparr>)"

definition getConfirmationCount :: "RelayerService \<Rightarrow> string \<Rightarrow> nat" where
  "getConfirmationCount s tid =
     (case map_get (confirmations s) tid of None \<Rightarrow> 0 | Some cs \<Rightarrow> length cs)"

definition AddressZero :: string where
  "AddressZero = ''0x0000000000000000000000000000000000000000''"

text \<open>The message that \<^verbatim>\<open>processConfirmedTransfer\<close> builds from the first confirmation.\<close>

definition confirmedMessage :: "string \<Rightarrow> RelayConfirmation \<Rightarrow> CrossChainMessage" where
  "confirmedMessage tid firstConf =
     \<lparr>transferId = tid,
      sender = AddressZero,
      recipient = AddressZero,
      amount = 0,
      sourceChainId = c_blockNumber firstConf,
      destinationChainId = c_blockNumber firstConf,
      token = AddressZero,
      timestamp = c_timestamp firstConf,
      nonce = 0\<rparr>"

text \<open>
  \<^verbatim>\<open>processConfirmedTransfer\<close>: on an empty array \<^verbatim>\<open>confirmations[0]\<close> is undefined and
  reading its \<^verbatim>\<open>blockNumber\<close> throws a TypeError. The entry is deleted only after
  \<^verbatim>\<open>relayMessage\<close> has returned; when it throws, the exception passes through.
\<close>

definition processConfirmedTransfer ::
  "RelayerService \<Rightarrow> string \<Rightarrow> RelayConfirmation list
     \<Rightarrow> (relay_error + unit) \<times> RelayerService"
where
  "processConfirmedTransfer s tid confs =
     (case confs of
        [] \<Rightarrow> (Inl TypeError, s)
      | firstConf # _ \<Rightarrow>
          (let r = relayMessage s (confirmedMessage tid firstConf)
           in (case fst r of
                 Inl e \<Rightarrow> (Inl e, snd r)
               | Inr h \<Rightarrow>
                   (Inr (), (snd r)\<lparr>confirmations := map_delete (confirmations (snd r)) tid\<rparr>))))"

text \<open>
  One pass of the \<^verbatim>\<open>for\<close> loop inside \<^verbatim>\<open>monitorConfirmations\<close>. The loop walks the
  entries of the map in insertion order; the only change to the map during the walk is the
  deletion of the entry just visited. An exception leaves the \<^verbatim>\<open>for\<close> loop (the
  \<^verbatim>\<open>try\<close> encloses it), so the remaining entries wait for the next pass.
\<close>

fun monitor_entries ::
  "(string \<times> RelayConfirmation list) list \<Rightarrow> RelayerService \<Rightarrow> RelayerService"
where
  "monitor_entries [] s = s"
| "monitor_entries ((tid, confs) # es) s =
     (if length confs \<ge> requiredSignatures s then
        (let r = processConfirmedTransfer s tid confs
         in (case fst r of
               Inl e \<Rightarrow> snd r
             | Inr u \<Rightarrow> monitor_entries es (snd r)))
      else monitor_entries es s)"

definition monitorPass :: "RelayerService \<Rightarrow> RelayerService" where
  "monitorPass s = monitor_entries (confirmations s) s"

text \<open>The transfer ids handed to \<^verbatim>\<open>relayMessage\<close> so far, successful or not.\<close>

definition dispatchedIds :: "RelayerService \<Rightarrow> string list" where
  "dispatchedIds s = map (\<lambda>c. transferId (fst c)) (relayCalls s)"

text \<open>The successful dispatches of one transfer id.\<close>

definition successCount :: "RelayerService \<Rightarrow> string \<Rightarrow> nat" where
  "successCount s tid =
     length (filter (\<lambda>c. transferId (fst c) = tid \<and> \<not> isl (snd c)) (relayCalls s))"

text \<open>The calls of \<^verbatim>\<open>relayMessage\<close> made during one pass of the monitor loop.\<close>

definition passCalls ::
  "RelayerService \<Rightarrow> (CrossChainMessage \<times> (relay_error + string)) list"
where
  "passCalls s = drop (length (relayCalls s)) (relayCalls (monitorPass s))"



text \<open>
  The first entry of the map, in insertion order, whose confirmation records have reached
  \<^verbatim>\<open>requiredSignatures\<close>.
\<close>

definition firstConfirmed :: "RelayerService \<Rightarrow> (string \<times> RelayConfirmation list) option" where
  "firstConfirmed s = find (\<lambda>e. requiredSignatures s \<le> length (snd e)) (confirmations s)"

text \<open>
  The messages a pass can build from a list of entries: one for each entry that is not empty
  and holds at least \<open>req\<close> confirmation records.
\<close>

definition entry_msgs ::
  "(string \<times> RelayConfirmation list) list \<Rightarrow> nat \<Rightarrow> CrossChainMessage set"
where
  "entry_msgs es req =
     (\<lambda>e. confirmedMessage (fst e) (hd (snd e))) `
       {e \<in> set es. snd e \<noteq> [] \<and> req \<le> length (snd e)}"

text \<open>
  The count the specification asks for: the distinct signers among the confirmations of
  one transfer. The code never computes it.
\<close>

definition distinctSignerCount :: "RelayConfirmation list \<Rightarrow> nat" where
  "distinctSignerCount confs = length (remdups (concat (map c_signers confs)))"

subsection \<open>Concrete inputs\<close>

definition ex_conf_alice :: RelayConfirmation where
  "ex_conf_alice =
     \<lparr>c_transferId = ''t1'', c_transactionHash = ''0xa1'', c_blockNumber = 137,
      c_timestamp = 1000, c_signatures = [''sigA''], c_signers = [''alice'']\<rparr>"

definition ex_conf_bob :: RelayConfirmation where
  "ex_conf_bob =
     \<lparr>c_transferId = ''t1'', c_transactionHash = ''0xa2'', c_blockNumber = 138,
      c_timestamp = 1001, c_signatures = [''sigB''], c_signers = [''bob'']\<rparr>"

definition ex_conf_carol :: RelayConfirmation where
  "ex_conf_carol =
     \<lparr>c_transferId = ''t2'', c_transactionHash = ''0xa3'', c_blockNumber = 139,
      c_timestamp = 1002, c_signatures = [''sigC''], c_signers = [''carol'']\<rparr>"

definition ex_conf_dave :: RelayConfirmation where
  "ex_conf_dave =
     \<lparr>c_transferId = ''t2'', c_transactionHash = ''0xa4'', c_blockNumber = 140,
      c_timestamp = 1003, c_signatures = [''sigD''], c_signers = [''dave'']\<rparr>"

definition ex_msg :: CrossChainMessage where
  "ex_msg =
     \<lparr>transferId = ''t1'', sender = ''0xs'', recipient = ''0xr'', amount = 5,
      sourceChainId = 1, destinationChainId = 137, token = ''0xt'',
      timestamp = 1000, nonce = 1\<rparr>"

section \<open>MessageBus\<close>

text \<open>
  \<^verbatim>\<open>messageHashes\<close> is a \<^verbatim>\<open>Map\<close> from hash to message, read and written by key
  only. \<^verbatim>\<open>publishMessage\<close> computes
  \<^verbatim>\<open>ethers.keccak256(ethers.solidityPackedEncode(types, values))\<close>. The ethers library
  has no function \<^verbatim>\<open>solidityPackedEncode\<close> (its names are \<^verbatim>\<open>utils.solidityPack\<close> and
  \<^verbatim>\<open>solidityPacked\<close>), so the inner call is a call of \<^verbatim>\<open>undefined\<close> and throws a
  TypeError for every message: \<open>None\<close> below. \<^verbatim>\<open>keccak256\<close> is never reached; it is a
  parameter of \<open>publishMessage\<close>, which keeps the shape of the source.
\<close>

type_synonym MessageBus = "string \<rightharpoonup> CrossChainMessage"

definition MessageBus_new :: MessageBus where
  "MessageBus_new = Map.empty"

definition solidityPackedEncode :: "CrossChainMessage \<Rightarrow> string option" where
  "solidityPackedEncode message = None"

definition publishMessage ::
  "(string \<Rightarrow> string) \<Rightarrow> MessageBus \<Rightarrow> CrossChainMessage \<Rightarrow> string option \<times> MessageBus"
where
  "publishMessage keccak256 bus message =
     (case solidityPackedEncode message of
        None \<Rightarrow> (None, bus)
      | Some packed \<Rightarrow>
          (let hash = keccak256 packed in (Some hash, bus(hash \<mapsto> message))))"

definition getMessage :: "MessageBus \<Rightarrow> string \<Rightarrow> CrossChainMessage option" where
  "getMessage bus hash = bus hash"

definition verifyMessage :: "MessageBus \<Rightarrow> string \<Rightarrow> CrossChainMessage \<Rightarrow> bool" where
  "verifyMessage bus hash message =
     (case getMessage bus hash of
        None \<Rightarrow> False
      | Some stored \<Rightarrow>
          transferId stored = transferId message \<and>
          sender stored = sender message \<and>
          recipient stored = recipient message \<and>
          amount stored = amount message)"

text \<open>The buses that calls of \<^verbatim>\<open>publishMessage\<close> can produce from a fresh one.\<close>

inductive reachable_bus :: "MessageBus \<Rightarrow> bool" where
  fresh_bus: "reachable_bus MessageBus_new"
| published: "reachable_bus bus \<Longrightarrow> reachable_bus (snd (publishMessage keccak256 bus message))"

section \<open>JavaScript BigInt and string helpers\<close>

text \<open>
  \<^verbatim>\<open>BigInt.prototype.toString(16)\<close>: lower-case hexadecimal digits, with a leading minus
  sign for a negative value.
\<close>

definition hexDigit :: "nat \<Rightarrow> char" where
  "hexDigit d = ''0123456789abcdef'' ! d"

fun hexNat :: "nat \<Rightarrow> string" where
  "hexNat n = (if n < 16 then [hexDigit n] else hexNat (n div 16) @ [hexDigit (n mod 16)])"

declare hexNat.simps [simp del]

definition toString16 :: "int \<Rightarrow> string" where
  "toString16 n = (if n < 0 then CHR ''-'' # hexNat (nat (- n)) else hexNat (nat n))"

definition padStart :: "nat \<Rightarrow> char \<Rightarrow> string \<Rightarrow> string" where
  "padStart n c s = replicate (n - length s) c @ s"

text \<open>The hash strings of the code: \<^verbatim>\<open>'0x' + h.toString(16).padStart(64, '0')\<close>.\<close>

definition hex64 :: "int \<Rightarrow> string" where
  "hex64 h = ''0x'' @ padStart 64 (CHR ''0'') (toString16 h)"

text \<open>
  \<^verbatim>\<open>BigInt(s)\<close> for a string \<open>s\<close>: white space is trimmed at both ends; the empty
  string is 0; a prefix \<^verbatim>\<open>0x\<close>, \<^verbatim>\<open>0o\<close> or \<^verbatim>\<open>0b\<close> (either case) selects the base and
  admits no sign; otherwise the string is a decimal numeral with an optional sign.
  Anything else throws a SyntaxError, the value \<open>None\<close> here. Strings are sequences of
  8-bit characters, so the white space of the model is the white space of JavaScript below
  code point 256.
\<close>

definition is_ws :: "char \<Rightarrow> bool" where
  "is_ws c \<longleftrightarrow> (of_char c :: nat) \<in> {9, 10, 11, 12, 13, 32, 160}"

definition trim :: "string \<Rightarrow> string" where
  "trim s = rev (dropWhile is_ws (rev (dropWhile is_ws s)))"

definition digit_val :: "char \<Rightarrow> nat option" where
  "digit_val c =
     (let n = (of_char c :: nat) in
      if 48 \<le> n \<and> n \<le> 57 then Some (n - 48)
      else if 97 \<le> n \<and> n \<le> 102 then Some (n - 87)
      else if 65 \<le> n \<and> n \<le> 70 then Some (n - 55)
      else None)"

fun digits_value :: "nat \<Rightarrow> nat \<Rightarrow> string \<Rightarrow> nat option" where
  "digits_value base acc [] = Some acc"
| "digits_value base acc (c # cs) =
     (case digit_val c of
        None \<Rightarrow> None
      | Some d \<Rightarrow> if d < base then digits_value base (acc * base + d) cs else None)"

definition parse_digits :: "nat \<Rightarrow> string \<Rightarrow> nat option" where
  "parse_digits base s = (if s = [] then None else digits_value base 0 s)"

definition BigInt_of_string :: "string \<Rightarrow> int option" where
  "BigInt_of_string s =
     (let t = trim s in
      if t = [] then Some 0
      else if take 2 t = ''0x'' \<or> take 2 t = ''0X'' then map_option int (parse_digits 16 (drop 2 t))
      else if take 2 t = ''0o'' \<or> take 2 t = ''0O'' then map_option int (parse_digits 8 (drop 2 t))
      else if take 2 t = ''0b'' \<or> take 2 t = ''0B'' then map_option int (parse_digits 2 (drop 2 t))
      else if hd t = CHR ''-'' then map_option (\<lambda>n. - int n) (parse_digits 10 (tl t))
      else if hd t = CHR ''+'' then map_option int (parse_digits 10 (tl t))
      else map_option int (parse_digits 10 t))"

text \<open>
  The remainder operator \<^verbatim>\<open>%\<close> on BigInt truncates towards zero: the result has the
  sign of the dividend. (A zero divisor throws; the only divisor in the code is the
  constant \<^verbatim>\<open>prime\<close>.)
\<close>

definition js_rem :: "int \<Rightarrow> int \<Rightarrow> int" where
  "js_rem a b = sgn a * (\<bar>a\<bar> mod \<bar>b\<bar>)"

text \<open>\<^verbatim>\<open>x || z\<close> for an array element: a hole, undefined and the empty string are falsy.\<close>

definition js_or :: "string option \<Rightarrow> string \<Rightarrow> string" where
  "js_or x z = (case x of None \<Rightarrow> z | Some s \<Rightarrow> if s = [] then z else s)"

section \<open>MiMC7\<close>

text \<open>
  \<^verbatim>\<open>prime = BigInt(2 ** 256 - 2 ** 32 - 977)\<close> is computed in double precision before
  the conversion: the two subtractions are far below the spacing of doubles near
  \<open>2 ^ 256\<close> and round back to it, so the constant is \<open>2 ^ 256\<close> itself.
\<close>

definition MiMC7_ROUNDS :: nat where
  "MiMC7_ROUNDS = 91"

definition MiMC7_prime :: int where
  "MiMC7_prime = 2 ^ 256"

definition xorShift :: "int \<Rightarrow> int \<Rightarrow> int" where
  "xorShift x y = js_rem (x XOR y) MiMC7_prime"

function modexp_loop :: "int \<Rightarrow> int \<Rightarrow> int \<Rightarrow> int \<Rightarrow> int" where
  "modexp_loop result b e m =
     (if e > 0 then
        modexp_loop (if e AND 1 \<noteq> 0 then js_rem (result * b) m else result)
          (js_rem (b * b) m) (drop_bit 1 e) m
      else result)"
  by pat_completeness auto
termination
  by (relation "measure (\<lambda>(result, b, e, m). nat e)") (auto simp: drop_bit_eq_div)

declare modexp_loop.simps [simp del]

definition modexp :: "int \<Rightarrow> int \<Rightarrow> int \<Rightarrow> int" where
  "modexp base exp m = modexp_loop 1 (js_rem base m) exp m"

text \<open>\<^verbatim>\<open>inputs[i % inputs.length] ?? 0n\<close>; on an empty array the index is NaN.\<close>

definition input_at :: "int list \<Rightarrow> nat \<Rightarrow> int" where
  "input_at inputs i = (if inputs = [] then 0 else inputs ! (i mod length inputs))"

definition MiMC7_round :: "int list \<Rightarrow> int \<Rightarrow> nat \<Rightarrow> int \<Rightarrow> int" where
  "MiMC7_round inputs key i state =
     xorShift (modexp state 5 MiMC7_prime XOR input_at inputs i) key"

definition MiMC7_hash :: "int list \<Rightarrow> int \<Rightarrow> int \<Rightarrow> int" where
  "MiMC7_hash inputs key seed =
     fold (MiMC7_round inputs key) [0..<MiMC7_ROUNDS] (xorShift key seed)"

section \<open>MerkleTree\<close>

text \<open>
  The level arrays of \<^verbatim>\<open>nodes\<close> are JavaScript arrays written at arbitrary indices, so
  they may have holes: partial maps from index to string. \<^verbatim>\<open>nodes\<close> itself is a
  \<^verbatim>\<open>Map\<close> from level to array; the constructor fills the levels \<open>0\<close> to \<open>depth\<close>
  with empty arrays. The depth is a natural number.
\<close>

datatype tree_error = TreeFull | SyntaxError

record MerkleTree =
  depth :: nat
  leaves :: "string list"
  nodes :: "nat \<rightharpoonup> (nat \<rightharpoonup> string)"
  zeroValue :: string

definition MerkleTree_new :: "nat \<Rightarrow> MerkleTree" where
  "MerkleTree_new d =
     \<lparr>depth = d, leaves = [],
      nodes = (\<lambda>level. if level \<le> d then Some Map.empty else None),
      zeroValue = ''0x'' @ replicate 64 (CHR ''0'')\<rparr>"

text \<open>\<^verbatim>\<open>this.nodes.get(level) || []\<close>\<close>

definition levelNodes_of :: "MerkleTree \<Rightarrow> nat \<Rightarrow> (nat \<rightharpoonup> string)" where
  "levelNodes_of t level = (case nodes t level of None \<Rightarrow> Map.empty | Some a \<Rightarrow> a)"

text \<open>
  The variable \<^verbatim>\<open>currentHash\<close> holds the leaf string at first and a BigInt from level 1
  on; \<^verbatim>\<open>BigInt(v)\<close> parses the one and returns the other as it is.
\<close>

datatype hashval = HStr string | HBig int

definition toBigInt :: "hashval \<Rightarrow> int option" where
  "toBigInt v = (case v of HStr s \<Rightarrow> BigInt_of_string s | HBig n \<Rightarrow> Some n)"

text \<open>
  The state of the \<^verbatim>\<open>for\<close> loop of \<^verbatim>\<open>updateTree\<close>: a pending exception, the tree,
  \<^verbatim>\<open>currentIndex\<close> and \<^verbatim>\<open>currentHash\<close>. Once a conversion has thrown, the remaining
  turns do nothing. One turn for a level above 0 reads the sibling from the array of that
  same level, hashes, and writes the parent into that same array.
\<close>

type_synonym update_state = "tree_error option \<times> MerkleTree \<times> nat \<times> hashval"

definition updateTree_step :: "nat \<Rightarrow> update_state \<Rightarrow> update_state" where
  "updateTree_step level st =
     (case st of (err, t, currentIndex, currentHash) \<Rightarrow>
        if err \<noteq> None then st
        else
          (let levelNodes = levelNodes_of t level;
               siblingIndex = (if currentIndex mod 2 = 0 then currentIndex + 1 else currentIndex - 1);
               sibling = js_or (levelNodes siblingIndex) (zeroValue t);
               left = (if currentIndex mod 2 = 0 then HStr sibling else currentHash);
               right = (if currentIndex mod 2 = 0 then currentHash else HStr sibling)
           in (case toBigInt left of
                 None \<Rightarrow> (Some SyntaxError, t, currentIndex, currentHash)
               | Some l \<Rightarrow>
                   (case toBigInt right of
                      None \<Rightarrow> (Some SyntaxError, t, currentIndex, currentHash)
                    | Some r \<Rightarrow>
                        (case BigInt_of_string (hex64 (MiMC7_hash [l, r] 0 0)) of
                           None \<Rightarrow> (Some SyntaxError, t, currentIndex, currentHash)
                         | Some h \<Rightarrow>
                             (None,
                              t\<lparr>nodes := (nodes t)(level \<mapsto>
                                   levelNodes(currentIndex div 2 \<mapsto> hex64 h))\<rparr>,
                              currentIndex div 2,
                              HBig h))))))"

text \<open>
  \<^verbatim>\<open>updateTree\<close>: the turn for level 0, the only one that takes the branch
  \<^verbatim>\<open>level === 0\<close>, stores the leaf; the turns for the levels 1 to \<open>depth\<close> follow.
\<close>

definition updateTree :: "MerkleTree \<Rightarrow> nat \<Rightarrow> string \<Rightarrow> tree_error option \<times> MerkleTree" where
  "updateTree t index leaf =
     (let t0 = t\<lparr>nodes := (nodes t)(0 \<mapsto> (levelNodes_of t 0)(index \<mapsto> leaf))\<rparr>;
          st = fold updateTree_step [1..<Suc (depth t)] (None, t0, index div 2, HStr leaf)
      in (fst st, fst (snd st)))"

text \<open>
  \<^verbatim>\<open>insert\<close>, named \<open>insert_leaf\<close> here because \<open>insert\<close> is a constant of HOL:
  the leaf is pushed before \<^verbatim>\<open>updateTree\<close> runs.
\<close>

definition insert_leaf :: "MerkleTree \<Rightarrow> string \<Rightarrow> (tree_error + nat) \<times> MerkleTree" where
  "insert_leaf t leaf =
     (let index = length (leaves t) in
      if index \<ge> 2 ^ depth t then (Inl TreeFull, t)
      else
        (let r = updateTree (t\<lparr>leaves := leaves t @ [leaf]\<rparr>) index leaf
         in (case fst r of
               Some e \<Rightarrow> (Inl e, snd r)
             | None \<Rightarrow> (Inr index, snd r))))"

definition getRoot :: "MerkleTree \<Rightarrow> string" where
  "getRoot t = js_or (levelNodes_of t (depth t) 0) (zeroValue t)"

text \<open>A sequence of inserts, with the result of each.\<close>

fun insert_all :: "MerkleTree \<Rightarrow> string list \<Rightarrow> (tree_error + nat) list \<times> MerkleTree" where
  "insert_all t [] = ([], t)"
| "insert_all t (x # xs) =
     (let r = insert_leaf t x; rs = insert_all (snd r) xs
      in (fst r # fst rs, snd rs))"

text \<open>The trees that inserts can produce from a fresh tree of depth \<open>d\<close>.\<close>

inductive reachable :: "nat \<Rightarrow> MerkleTree \<Rightarrow> bool" where
  fresh: "reachable d (MerkleTree_new d)"
| step: "reachable d t \<Longrightarrow> reachable d (snd (insert_leaf t leaf))"





section \<open>ShieldedPool\<close>

record ZKProofOutput =
  pi_a :: "string list"
  pi_b :: "string list list"
  pi_c :: "string list"
  publicSignals :: "string list"

record ShieldedNote =
  n_commitment :: string
  n_nullifier :: string
  n_amount :: int
  n_salt :: int
  n_createdAt :: int
  n_spent :: bool
  n_leafIndex :: nat

text \<open>
  The notes are objects held in the \<^verbatim>\<open>Map\<close> \<^verbatim>\<open>notes\<close> (here \<open>notesMap\<close>) under their commitment and reached through
  it alone, so marking a note spent is an update of the map at that key. \<^verbatim>\<open>Date.now()\<close>
  is an argument of \<open>deposit\<close>.
\<close>

record ShieldedPool =
  notesMap :: "string \<rightharpoonup> ShieldedNote"
  nullifierSet :: "string set"
  commitmentTree :: "string list"
  poolSize :: int

datatype pool_error = PoolFull | CommitmentNotFound | NoteAlreadySpent | DoubleSpend

definition ShieldedPool_new :: "int \<Rightarrow> ShieldedPool" where
  "ShieldedPool_new capacity =
     \<lparr>notesMap = Map.empty, nullifierSet = {}, commitmentTree = [], poolSize = capacity\<rparr>"

text \<open>\<^verbatim>\<open>'0x' + data.map(d => d.toString(16).padStart(64, '0')).join('')\<close>\<close>

definition pool_hash :: "int list \<Rightarrow> string" where
  "pool_hash data = ''0x'' @ concat (map (\<lambda>d. padStart 64 (CHR ''0'') (toString16 d)) data)"

definition deposit ::
  "ShieldedPool \<Rightarrow> int \<Rightarrow> int \<Rightarrow> int \<Rightarrow> int
     \<Rightarrow> (pool_error + string \<times> string \<times> nat) \<times> ShieldedPool"
where
  "deposit p amt secret salt now =
     (if int (length (commitmentTree p)) \<ge> poolSize p then (Inl PoolFull, p)
      else
        (let nullifier = pool_hash [secret, salt];
             commitment = pool_hash [amt, secret, salt];
             note = \<lparr>n_commitment = commitment, n_nullifier = nullifier, n_amount = amt,
                     n_salt = salt, n_createdAt = now, n_spent = False,
                     n_leafIndex = length (commitmentTree p)\<rparr>
         in (Inr (commitment, nullifier, n_leafIndex note),
             p\<lparr>notesMap := (notesMap p)(commitment \<mapsto> note),
               commitmentTree := commitmentTree p @ [commitment]\<rparr>)))"

text \<open>
  \<^verbatim>\<open>withdraw\<close> takes the recipient, the proof, the relayer and the fee and reads none of
  them.
\<close>

definition withdraw ::
  "ShieldedPool \<Rightarrow> string \<Rightarrow> string \<Rightarrow> ZKProofOutput \<Rightarrow> string \<Rightarrow> int
     \<Rightarrow> (pool_error + bool \<times> string) \<times> ShieldedPool"
where
  "withdraw p commitment rcpt zkproof relayer fee =
     (case notesMap p commitment of
        None \<Rightarrow> (Inl CommitmentNotFound, p)
      | Some note \<Rightarrow>
          if n_spent note then (Inl NoteAlreadySpent, p)
          else if n_nullifier note \<in> nullifierSet p then (Inl DoubleSpend, p)
          else (Inr (True, n_nullifier note),
                p\<lparr>notesMap := (notesMap p)(commitment \<mapsto> note\<lparr>n_spent := True\<rparr>),
                  nullifierSet := insert (n_nullifier note) (nullifierSet p)\<rparr>))"

section \<open>RivicQCore\<close>

text \<open>
  Of the fields of \<^verbatim>\<open>RivicQCore\<close>, \<^verbatim>\<open>wasmBuffer\<close> is null throughout and left out.
  \<^verbatim>\<open>spentNullifiers\<close> maps a nullifier to the block number given with it.
\<close>

record RivicQCore =
  merkleTree :: MerkleTree
  spentNullifiers :: "string \<rightharpoonup> int"
  chainId :: int

definition RivicQCore_new :: "int \<Rightarrow> RivicQCore" where
  "RivicQCore_new c =
     \<lparr>merkleTree = MerkleTree_new 20, spentNullifiers = Map.empty, chainId = c\<rparr>"

definition verifyTransferProof ::
  "RivicQCore \<Rightarrow> ZKProofOutput \<Rightarrow> string \<Rightarrow> int \<Rightarrow> bool \<times> RivicQCore"
where
  "verifyTransferProof core zkproof nullifier blockNumber =
     (if spentNullifiers core nullifier \<noteq> None then (False, core)
      else (pi_a zkproof \<noteq> [],
            core\<lparr>spentNullifiers := (spentNullifiers core)(nullifier \<mapsto> blockNumber)\<rparr>))"

subsection \<open>Concrete proofs and messages\<close>

definition ex_proof_empty :: ZKProofOutput where
  "ex_proof_empty = \<lparr>pi_a = [], pi_b = [], pi_c = [], publicSignals = []\<rparr>"

definition ex_proof_full :: ZKProofOutput where
  "ex_proof_full =
     \<lparr>pi_a = [''0x01''], pi_b = [[''0x02''], [''0x03'']], pi_c = [''0x04''],
      publicSignals = [''1'']\<rparr>"

section \<open>Properties of the relay coordinator\<close>

lemma map_get_map_set: "map_get (map_set m k v) k' = (if k' = k then Some v else map_get m k')"
  by (induction m) auto

lemma map_get_None_iff: "map_get m k = None \<longleftrightarrow> k \<notin> fst ` set m"
  by (induction m) force+



text \<open>Every call of \<^verbatim>\<open>relayMessage\<close> throws and is recorded.\<close>

lemma relayMessage_throws:
  "relayMessage s m = (Inl TypeError, s\<lparr>relayCalls := relayCalls s @ [(m, Inl TypeError)]\<rparr>)"
  by (simp add: relayMessage_def Let_def)

lemma pct_throws:
  "processConfirmedTransfer s tid (f # r) =
     (Inl TypeError, s\<lparr>relayCalls := relayCalls s @ [(confirmedMessage tid f, Inl TypeError)]\<rparr>)"
  by (simp add: processConfirmedTransfer_def relayMessage_throws)

lemma pct_empty: "processConfirmedTransfer s tid [] = (Inl TypeError, s)"
  by (simp add: processConfirmedTransfer_def)

text \<open>
  A pass stops at the first entry that has reached the threshold: the dispatch of that
  entry throws, and the exception ends the pass.
\<close>

lemma monitor_entries_char:
  "monitor_entries es s =
     (case find (\<lambda>e. requiredSignatures s \<le> length (snd e)) es of
        None \<Rightarrow> s
      | Some (tid, confs) \<Rightarrow>
          (case confs of
             [] \<Rightarrow> s
           | f # r \<Rightarrow> s\<lparr>relayCalls := relayCalls s @ [(confirmedMessage tid f, Inl TypeError)]\<rparr>))"
proof (induction es)
  case Nil
  then show ?case by simp
next
  case (Cons e es)
  obtain tid confs where e: "e = (tid, confs)" by (cases e)
  show ?case
  proof (cases "requiredSignatures s \<le> length confs")
    case True
    with e show ?thesis by (cases confs) (simp_all add: pct_throws pct_empty)
  next
    case False
    with e Cons show ?thesis by simp
  qed
qed

lemma monitorPass_char:
  "monitorPass s =
     (case firstConfirmed s of
        None \<Rightarrow> s
      | Some (tid, confs) \<Rightarrow>
          (case confs of
             [] \<Rightarrow> s
           | f # r \<Rightarrow> s\<lparr>relayCalls := relayCalls s @ [(confirmedMessage tid f, Inl TypeError)]\<rparr>))"
  by (simp add: monitorPass_def firstConfirmed_def monitor_entries_char)




lemma passCalls_char:
  "passCalls s =
     (case firstConfirmed s of
        None \<Rightarrow> []
      | Some (tid, confs) \<Rightarrow>
          (case confs of [] \<Rightarrow> [] | f # r \<Rightarrow> [(confirmedMessage tid f, Inl TypeError)]))"
  by (simp add: passCalls_def monitorPass_char split: option.splits list.splits)

lemma find_Some_member: "find P xs = Some x \<Longrightarrow> x \<in> set xs \<and> P x"
  by (induction xs) (auto split: if_splits)

lemma firstConfirmed_member:
  "firstConfirmed s = Some (tid, confs) \<Longrightarrow>
     (tid, confs) \<in> set (confirmations s) \<and> requiredSignatures s \<le> length confs"
  using find_Some_member [of "\<lambda>e. requiredSignatures s \<le> length (snd e)" "confirmations s" "(tid, confs)"]
  by (simp add: firstConfirmed_def)


lemma transferId_confirmedMessage [simp]: "transferId (confirmedMessage tid f) = tid"
  by (simp add: confirmedMessage_def)


lemma count_addConfirmation_other:
  "tid \<noteq> c_transferId c \<Longrightarrow>
     getConfirmationCount (addConfirmation s c) tid = getConfirmationCount s tid"
  by (simp add: getConfirmationCount_def addConfirmation_def Let_def map_get_map_set)





lemma relayCalls_addConfirmation [simp]: "relayCalls (addConfirmation s c) = relayCalls s"
  by (simp add: addConfirmation_def Let_def)










lemmas relayer_eval =
  addConfirmation_def RelayerService_new_def Let_def ex_conf_alice_def ex_conf_bob_def
  ex_conf_carol_def ex_conf_dave_def
  monitorPass_def processConfirmedTransfer_def relayMessage_def
  confirmedMessage_def dispatchedIds_def successCount_def getConfirmationCount_def
  distinctSignerCount_def passCalls_def firstConfirmed_def submitCrossChainMessage_def
  processMessageQueue_iter_def eval_nat_numeral


lemma passCalls_member:
  assumes "c \<in> set (passCalls s)"
  shows "\<exists>t f r. firstConfirmed s = Some (t, f # r) \<and> c = (confirmedMessage t f, Inl TypeError)"
proof (cases "firstConfirmed s")
  case None
  with assms show ?thesis by (simp add: passCalls_char)
next
  case (Some e)
  obtain t confs where "e = (t, confs)" by (cases e)
  with Some assms show ?thesis by (cases confs) (simp_all add: passCalls_char)
qed

section \<open>Properties of the message bus\<close>

lemma publishMessage_throws: "publishMessage k bus m = (None, bus)"
  by (simp add: publishMessage_def solidityPackedEncode_def)

lemma reachable_bus_empty: "reachable_bus bus \<Longrightarrow> bus = MessageBus_new"
  by (induction rule: reachable_bus.induct) (simp_all add: publishMessage_throws)

lemma verifyMessage_reachable: "reachable_bus bus \<Longrightarrow> \<not> verifyMessage bus h m"
  by (drule reachable_bus_empty) (simp add: verifyMessage_def getMessage_def MessageBus_new_def)

lemma verifyMessage_four_fields:
  "bus h = Some stored \<Longrightarrow>
     verifyMessage bus h m \<longleftrightarrow>
       transferId stored = transferId m \<and> sender stored = sender m \<and>
       recipient stored = recipient m \<and> amount stored = amount m"
  by (simp add: verifyMessage_def getMessage_def)

section \<open>Properties of the shielded pool\<close>

lemma withdraw_presented_spent:
  assumes "notesMap p c = Some note" and "n_nullifier note \<in> nullifierSet p"
  shows "withdraw p c r prf rel fee = (Inl NoteAlreadySpent, p) \<or>
         withdraw p c r prf rel fee = (Inl DoubleSpend, p)"
  using assms by (simp add: withdraw_def)

lemma withdraw_success:
  assumes "notesMap p c = Some note" and "\<not> n_spent note" and "n_nullifier note \<notin> nullifierSet p"
  shows "withdraw p c r prf rel fee =
           (Inr (True, n_nullifier note),
            p\<lparr>notesMap := (notesMap p)(c \<mapsto> note\<lparr>n_spent := True\<rparr>),
              nullifierSet := insert (n_nullifier note) (nullifierSet p)\<rparr>)"
  using assms by (simp add: withdraw_def)

lemma withdraw_error_unchanged:
  "fst (withdraw p c r prf rel fee) = Inl e \<Longrightarrow> snd (withdraw p c r prf rel fee) = p"
  by (auto simp: withdraw_def split: option.splits if_splits)

lemma withdraw_nullifiers_grow:
  "nullifierSet p \<subseteq> nullifierSet (snd (withdraw p c r prf rel fee))"
  by (auto simp: withdraw_def split: option.splits)

lemma deposit_nullifiers:
  "nullifierSet (snd (deposit p a s x now)) = nullifierSet p"
  by (simp add: deposit_def Let_def)

lemma deposit_full:
  "poolSize p \<le> int (length (commitmentTree p)) \<Longrightarrow> deposit p a s x now = (Inl PoolFull, p)"
  by (simp add: deposit_def)

lemma deposit_not_full:
  "int (length (commitmentTree p)) < poolSize p \<Longrightarrow>
     \<exists>c n. fst (deposit p a s x now) = Inr (c, n, length (commitmentTree p)) \<and>
           commitmentTree (snd (deposit p a s x now)) = commitmentTree p @ [c]"
  by (simp add: deposit_def Let_def)

section \<open>Properties of RivicQCore\<close>

lemma verifyTransferProof_spent:
  "spentNullifiers core n \<noteq> None \<Longrightarrow> verifyTransferProof core prf n b = (False, core)"
  by (simp add: verifyTransferProof_def)

lemma verifyTransferProof_fresh:
  "spentNullifiers core n = None \<Longrightarrow>
     verifyTransferProof core prf n b =
       (pi_a prf \<noteq> [], core\<lparr>spentNullifiers := (spentNullifiers core)(n \<mapsto> b)\<rparr>)"
  by (simp add: verifyTransferProof_def)

lemma verifyTransferProof_keeps:
  "spentNullifiers core n \<noteq> None \<Longrightarrow>
     spentNullifiers (snd (verifyTransferProof core prf n' b)) n \<noteq> None"
  by (simp add: verifyTransferProof_def)

section \<open>Properties of the BigInt conversions\<close>













section \<open>MiMC7 keeps values non-negative\<close>








section \<open>Properties of the Merkle tree\<close>










text \<open>Whatever happens, the loop touches neither the leaves nor the depth.\<close>

lemma updateTree_step_fields:
  "leaves (fst (snd (updateTree_step level st))) = leaves (fst (snd st)) \<and>
   depth (fst (snd (updateTree_step level st))) = depth (fst (snd st)) \<and>
   zeroValue (fst (snd (updateTree_step level st))) = zeroValue (fst (snd st))"
  by (cases st) (auto simp: updateTree_step_def Let_def split: option.splits)

lemma fold_step_fields:
  "leaves (fst (snd (fold updateTree_step levels st))) = leaves (fst (snd st)) \<and>
   depth (fst (snd (fold updateTree_step levels st))) = depth (fst (snd st)) \<and>
   zeroValue (fst (snd (fold updateTree_step levels st))) = zeroValue (fst (snd st))"
  by (induction levels arbitrary: st) (simp_all add: updateTree_step_fields)

lemma updateTree_fields:
  "leaves (snd (updateTree t i leaf)) = leaves t \<and> depth (snd (updateTree t i leaf)) = depth t"
  by (simp add: updateTree_def Let_def fold_step_fields)


lemma insert_leaf_full:
  "2 ^ depth t \<le> length (leaves t) \<Longrightarrow> insert_leaf t x = (Inl TreeFull, t)"
  by (simp add: insert_leaf_def)

lemma leaves_insert_leaf:
  "leaves (snd (insert_leaf t x)) =
     (if 2 ^ depth t \<le> length (leaves t) then leaves t else leaves t @ [x])"
  by (simp add: insert_leaf_def Let_def updateTree_fields split: option.splits)

lemma depth_insert_leaf [simp]: "depth (snd (insert_leaf t x)) = depth t"
  by (simp add: insert_leaf_def Let_def updateTree_fields split: option.splits)


lemma insert_all_append:
  "insert_all t (xs @ ys) =
     (fst (insert_all t xs) @ fst (insert_all (snd (insert_all t xs)) ys),
      snd (insert_all (snd (insert_all t xs)) ys))"
  by (induction xs arbitrary: t) (simp_all add: Let_def)


text \<open>A reachable tree is the tree that a fresh one becomes by inserting its stored leaves.\<close>

lemma reachable_depth: "reachable d t \<Longrightarrow> depth t = d"
  by (induction rule: reachable.induct) (simp_all add: MerkleTree_new_def)

lemma reachable_is_run:
  "reachable d t \<Longrightarrow> t = snd (insert_all (MerkleTree_new d) (leaves t))"
proof (induction rule: reachable.induct)
  case (fresh d)
  then show ?case by (simp add: MerkleTree_new_def)
next
  case (step d t leaf)
  show ?case
  proof (cases "2 ^ depth t \<le> length (leaves t)")
    case True
    then have "snd (insert_leaf t leaf) = t" by (simp add: insert_leaf_full)
    with step.IH show ?thesis by simp
  next
    case False
    then have "leaves (snd (insert_leaf t leaf)) = leaves t @ [leaf]"
      by (simp add: leaves_insert_leaf)
    moreover have "snd (insert_all (MerkleTree_new d) (leaves t @ [leaf])) =
        snd (insert_leaf (snd (insert_all (MerkleTree_new d) (leaves t))) leaf)"
      by (simp add: insert_all_append Let_def)
    ultimately show ?thesis using step.IH by simp
  qed
qed

lemma reachable_insert_all: "reachable d t \<Longrightarrow> reachable d (snd (insert_all t xs))"
  by (induction xs arbitrary: t) (simp_all add: Let_def reachable.step)


section \<open>Claims about the relay coordinator\<close>

subsection \<open>C1: dispatch at most once\<close>




subsection \<open>C4: the confirmation threshold\<close>




subsection \<open>C8: retries of the message queue\<close>




subsection \<open>C10: the message dispatched for a confirmed transfer\<close>

text \<open>
  Claim C10: \<^verbatim>\<open>processConfirmedTransfer\<close> hands to \<^verbatim>\<open>relayMessage\<close> a message built
  from the transfer id and the first confirmation alone: sender, recipient and token are
  the zero address, amount and nonce are 0, and both chain ids are the block number of the
  first confirmation. The state, and with it every message submitted to the queue, has no
  influence on it. So every message that a pass of the monitor loop dispatches has these
  values, taken from the first confirmation stored for its transfer id.
\<close>

theorem confirmed_dispatch_is_placeholder:
  "(confs = firstConf # rest \<longrightarrow>
      (\<exists>out. relayCalls (snd (processConfirmedTransfer s tid confs)) =
           relayCalls s @
             [(\<lparr>transferId = tid, sender = AddressZero, recipient = AddressZero, amount = 0,
                sourceChainId = c_blockNumber firstConf,
                destinationChainId = c_blockNumber firstConf,
                token = AddressZero, timestamp = c_timestamp firstConf, nonce = 0\<rparr>, out)])) \<and>
   (\<forall>c\<in>set (passCalls s).
      sender (fst c) = AddressZero \<and> recipient (fst c) = AddressZero \<and> amount (fst c) = 0 \<and>
      token (fst c) = AddressZero \<and> nonce (fst c) = 0 \<and>
      (\<exists>cs. (transferId (fst c), cs) \<in> set (confirmations s) \<and> cs \<noteq> [] \<and>
         sourceChainId (fst c) = c_blockNumber (hd cs) \<and>
         destinationChainId (fst c) = c_blockNumber (hd cs)))"
proof (intro conjI impI ballI)
  assume "confs = firstConf # rest"
  then show "\<exists>out. relayCalls (snd (processConfirmedTransfer s tid confs)) =
           relayCalls s @
             [(\<lparr>transferId = tid, sender = AddressZero, recipient = AddressZero, amount = 0,
                sourceChainId = c_blockNumber firstConf,
                destinationChainId = c_blockNumber firstConf,
                token = AddressZero, timestamp = c_timestamp firstConf, nonce = 0\<rparr>, out)]"
    by (simp add: pct_throws confirmedMessage_def)
next
  fix c assume c: "c \<in> set (passCalls s)"
  from passCalls_member [OF c] obtain t f r where fc: "firstConfirmed s = Some (t, f # r)"
    and ceq: "c = (confirmedMessage t f, Inl TypeError)" by blast
  from firstConfirmed_member [OF fc] have m: "(t, f # r) \<in> set (confirmations s)" by simp
  from ceq show "sender (fst c) = AddressZero" "recipient (fst c) = AddressZero"
    "amount (fst c) = 0" "token (fst c) = AddressZero" "nonce (fst c) = 0"
    by (simp_all add: confirmedMessage_def)
  from ceq m show "\<exists>cs. (transferId (fst c), cs) \<in> set (confirmations s) \<and> cs \<noteq> [] \<and>
         sourceChainId (fst c) = c_blockNumber (hd cs) \<and>
         destinationChainId (fst c) = c_blockNumber (hd cs)"
    by (intro exI [of _ "f # r"]) (simp add: confirmedMessage_def)
qed

theorem confirmed_dispatch_is_placeholder_witness:
  "relayCalls (snd (processConfirmedTransfer
      (addConfirmation (addConfirmation (submitCrossChainMessage RelayerService_new ex_msg)
         ex_conf_alice) ex_conf_bob) ''t1'' [ex_conf_alice, ex_conf_bob])) =
     [(\<lparr>transferId = ''t1'', sender = AddressZero, recipient = AddressZero, amount = 0,
        sourceChainId = 137, destinationChainId = 137,
        token = AddressZero, timestamp = 1000, nonce = 0\<rparr>, Inl TypeError)] \<and>
   map fst (passCalls
      (addConfirmation (addConfirmation (submitCrossChainMessage RelayerService_new ex_msg)
         ex_conf_alice) ex_conf_bob)) =
     [\<lparr>transferId = ''t1'', sender = AddressZero, recipient = AddressZero, amount = 0,
        sourceChainId = 137, destinationChainId = 137,
        token = AddressZero, timestamp = 1000, nonce = 0\<rparr>]"
  using confirmed_dispatch_is_placeholder [of "[ex_conf_alice, ex_conf_bob]" ex_conf_alice
      "[ex_conf_bob]"
      "addConfirmation (addConfirmation (submitCrossChainMessage RelayerService_new ex_msg)
         ex_conf_alice) ex_conf_bob" "''t1''"]
  by (simp add: relayer_eval)

section \<open>Claims about the message bus, the shielded pool and the proof check\<close>

subsection \<open>C6: verification of a message against its hash\<close>

text \<open>
  Claim C6 against the code. \<^verbatim>\<open>publishMessage\<close> throws before it stores the message,
  for every message, so no hash is ever computed or stored, and \<^verbatim>\<open>verifyMessage\<close>
  returns false for the published message under every hash, the digest of the message
  included. The claim asks for true there. (On every bus that calls of
  \<^verbatim>\<open>publishMessage\<close> can produce \<^verbatim>\<open>verifyMessage\<close> is false throughout, see
  \<open>verifyMessage_reachable\<close>; the comparison of four fields out of nine, see
  \<open>verifyMessage_four_fields\<close>, never comes into play.)
\<close>

theorem published_message_never_verifies:
  "publishMessage k MessageBus_new ex_msg = (None, MessageBus_new) \<and>
   \<not> verifyMessage (snd (publishMessage k MessageBus_new ex_msg)) h ex_msg"
  by (simp add: publishMessage_throws verifyMessage_def getMessage_def MessageBus_new_def)

subsection \<open>C9: the proof argument of withdraw\<close>

text \<open>
  Claim C9: the result of \<^verbatim>\<open>ShieldedPool.withdraw\<close> and the state it leaves do not
  depend on the proof; two calls that differ in the proof alone are equal. So the
  withdrawal of a note that exists, is not marked spent and whose nullifier is not in the
  nullifier set succeeds for any proof whatsoever, and consumes the nullifier.
\<close>

theorem withdraw_ignores_proof:
  "withdraw p c r prf1 rel fee = withdraw p c r prf2 rel fee \<and>
   (notesMap p c = Some note \<and> \<not> n_spent note \<and> n_nullifier note \<notin> nullifierSet p \<longrightarrow>
      fst (withdraw p c r prf rel fee) = Inr (True, n_nullifier note) \<and>
      n_nullifier note \<in> nullifierSet (snd (withdraw p c r prf rel fee)))"
  by (simp add: withdraw_def)

theorem withdraw_ignores_proof_witness:
  "fst (withdraw (snd (deposit (ShieldedPool_new 10000) 5 7 9 1000)) (pool_hash [5, 7, 9])
          ''0xr'' ex_proof_empty ''0xrel'' 0) = Inr (True, pool_hash [7, 9]) \<and>
   withdraw (snd (deposit (ShieldedPool_new 10000) 5 7 9 1000)) (pool_hash [5, 7, 9])
          ''0xr'' ex_proof_empty ''0xrel'' 0 =
   withdraw (snd (deposit (ShieldedPool_new 10000) 5 7 9 1000)) (pool_hash [5, 7, 9])
          ''0xr'' ex_proof_full ''0xrel'' 0"
  using withdraw_ignores_proof [of "snd (deposit (ShieldedPool_new 10000) 5 7 9 1000)"
      "pool_hash [5, 7, 9]" "''0xr''" ex_proof_empty "''0xrel''" 0 ex_proof_full
      "\<lparr>n_commitment = pool_hash [5, 7, 9], n_nullifier = pool_hash [7, 9], n_amount = 5,
        n_salt = 9, n_createdAt = 1000, n_spent = False, n_leafIndex = 0\<rparr>" ex_proof_empty]
  by (simp add: deposit_def ShieldedPool_new_def Let_def withdraw_def)

subsection \<open>C2: an invalid proof and the nullifier\<close>

text \<open>
  Claim C2 against the code. \<^verbatim>\<open>RivicQCore.verifyTransferProof\<close> records the nullifier
  before it looks at the proof. On a fresh core, with a proof whose \<^verbatim>\<open>pi_a\<close> is empty
  and a nullifier that was never seen, the call reports failure and the nullifier is
  recorded as spent all the same. The claim asks for an unchanged set of spent nullifiers.
\<close>

theorem invalid_proof_consumes_nullifier:
  "spentNullifiers (RivicQCore_new 1) ''n1'' = None \<and>
   fst (verifyTransferProof (RivicQCore_new 1) ex_proof_empty ''n1'' 7) = False \<and>
   spentNullifiers (snd (verifyTransferProof (RivicQCore_new 1) ex_proof_empty ''n1'' 7)) ''n1''
     = Some 7"
  by (simp add: verifyTransferProof_def RivicQCore_new_def ex_proof_empty_def)

subsection \<open>C3: a nullifier is consumed at most once\<close>

text \<open>
  Claim C3 against the code. The first call of \<^verbatim>\<open>verifyTransferProof\<close> that consumes
  a nullifier need not succeed: with an invalid proof it consumes the nullifier and returns
  false, and the later call with a valid proof, which would have succeeded on the fresh
  core, is rejected as well. The nullifier is consumed and no call has returned true. The
  rest of the claim holds, see \<open>verifyTransferProof_spent\<close>,
  \<open>withdraw_presented_spent\<close> and \<open>withdraw_success\<close>.
\<close>

theorem consumed_without_success:
  "fst (verifyTransferProof (RivicQCore_new 1) ex_proof_full ''n1'' 8) = True \<and>
   fst (verifyTransferProof (RivicQCore_new 1) ex_proof_empty ''n1'' 7) = False \<and>
   spentNullifiers (snd (verifyTransferProof (RivicQCore_new 1) ex_proof_empty ''n1'' 7)) ''n1''
     \<noteq> None \<and>
   fst (verifyTransferProof
          (snd (verifyTransferProof (RivicQCore_new 1) ex_proof_empty ''n1'' 7))
          ex_proof_full ''n1'' 8) = False"
  by (simp add: verifyTransferProof_def RivicQCore_new_def ex_proof_empty_def ex_proof_full_def)

section \<open>Claims about the commitment tree\<close>

subsection \<open>C5: capacity of the tree\<close>



subsection \<open>C7: the root as a function of the leaves\<close>

text \<open>
  Claim C7: the root depends on the depth and on the sequence of inserted leaves alone.
  Neither \<^verbatim>\<open>insert\<close> nor \<^verbatim>\<open>updateTree\<close> nor the hash reads a clock or a random
  source, so two runs of the same inserts give the same tree. Beyond that, two trees of the
  same depth, each reached from a fresh tree by inserts of any kind, those refused or
  broken off by an exception included, have the same root whenever they store the same
  leaf sequence.
\<close>

theorem root_determined_by_leaves:
  assumes "reachable d t1" and "reachable d t2" and "leaves t1 = leaves t2"
  shows "getRoot t1 = getRoot t2"
proof -
  from reachable_is_run [OF assms(1)] reachable_is_run [OF assms(2)] assms(3)
  have "t1 = t2" by simp
  then show ?thesis by simp
qed

theorem root_determined_by_leaves_witness:
  "getRoot (snd (insert_all (MerkleTree_new 1) [''0x01'', ''0x02''])) =
   getRoot (snd (insert_all (MerkleTree_new 1) [''0x01'', ''0x02'', ''0x03'']))"
proof -
  have r1: "reachable 1 (snd (insert_all (MerkleTree_new 1) [''0x01'', ''0x02'']))"
    by (rule reachable_insert_all) (rule reachable.fresh)
  have r2: "reachable 1 (snd (insert_all (MerkleTree_new 1) [''0x01'', ''0x02'', ''0x03'']))"
    by (rule reachable_insert_all) (rule reachable.fresh)
  have l: "leaves (snd (insert_all (MerkleTree_new 1) [''0x01'', ''0x02''])) =
           leaves (snd (insert_all (MerkleTree_new 1) [''0x01'', ''0x02'', ''0x03'']))"
    by (simp add: Let_def leaves_insert_leaf MerkleTree_new_def)
  from root_determined_by_leaves [OF r1 r2 l] show ?thesis .
qed

end
